theory Spec2Isabelle
  imports Main "HOL-Library.Word"
begin

section \<open>Data model (src/main.cpp, lines 23-162)\<close>

text \<open>
  The embedding follows src/main.cpp. A data member \<open>x_\<close> of the source is written
  \<open>m_x\<close> (a name cannot end in an underscore here); the members of the small value
  structs \<open>LevelInfo\<close>, \<open>TradeInfo\<close> and \<open>OrderModify\<close>, which share the names
  \<open>price_\<close>, \<open>quantity_\<close> and \<open>orderId_\<close> with \<open>Order\<close>, carry the struct's name
  instead.

  \<open>Price\<close> is \<open>std::int32_t\<close>. The program only compares and copies prices, so they
  are integers here. \<open>Quantity\<close> is \<open>std::uint32_t\<close> and \<open>OrderId\<close> is
  \<open>std::uint64_t\<close>: machine words.
\<close>

datatype OrderType = GoodTillCancel | FillAndKill

datatype Side = Buy | Sell

type_synonym Price = int
type_synonym Quantity = "32 word"
type_synonym OrderId = "64 word"

record LevelInfo =
  level_price :: Price
  level_quantity :: Quantity

type_synonym LevelInfos = "LevelInfo list"

record OrderbookLevelInfos =
  m_bidInfos :: LevelInfos
  m_askInfos :: LevelInfos

record Order =
  m_orderType :: OrderType
  m_orderId :: OrderId
  m_side :: Side
  m_price :: Price
  m_initialQuantity :: Quantity
  m_remainingQuantity :: Quantity

text \<open>The constructor \<open>Order(orderType, orderId, side, price, quantity)\<close>.\<close>

definition new_Order :: "OrderType \<Rightarrow> OrderId \<Rightarrow> Side \<Rightarrow> Price \<Rightarrow> Quantity \<Rightarrow> Order" where
  "new_Order orderType orderId side price quantity =
     \<lparr>m_orderType = orderType, m_orderId = orderId, m_side = side, m_price = price,
      m_initialQuantity = quantity, m_remainingQuantity = quantity\<rparr>"

abbreviation GetOrderId :: "Order \<Rightarrow> OrderId" where
  "GetOrderId \<equiv> m_orderId"

abbreviation GetSide :: "Order \<Rightarrow> Side" where
  "GetSide \<equiv> m_side"

abbreviation GetPrice :: "Order \<Rightarrow> Price" where
  "GetPrice \<equiv> m_price"

abbreviation GetOrderType :: "Order \<Rightarrow> OrderType" where
  "GetOrderType \<equiv> m_orderType"

abbreviation GetInitialQuantity :: "Order \<Rightarrow> Quantity" where
  "GetInitialQuantity \<equiv> m_initialQuantity"

abbreviation GetRemainingQuantity :: "Order \<Rightarrow> Quantity" where
  "GetRemainingQuantity \<equiv> m_remainingQuantity"

definition GetFilledQuantity :: "Order \<Rightarrow> Quantity" where
  "GetFilledQuantity ord = GetInitialQuantity ord - GetRemainingQuantity ord"

definition IsFilled :: "Order \<Rightarrow> bool" where
  "IsFilled ord = (m_remainingQuantity ord = 0)"

text \<open>
  What a call can end in: it returns a value, it throws (\<open>Order::Fill\<close> throws
  \<open>std::logic_error\<close>, \<open>std::map::at\<close> throws \<open>std::out_of_range\<close>), or the C++
  standard leaves its behaviour undefined (control reaches the end of a function that
  must return a value; \<open>front()\<close> of an empty list; \<open>erase\<close> with an iterator
  of another list; a read through a reference whose object has been destroyed).
\<close>

datatype exn = logic_error | out_of_range

datatype 'a outcome = Returned 'a | Thrown exn | Undefined

text \<open>\<open>Order::Fill\<close>, lines 86-95, on the object.\<close>

definition Fill :: "Quantity \<Rightarrow> Order \<Rightarrow> Order outcome" where
  "Fill quantity ord =
     (if quantity > GetRemainingQuantity ord then Thrown logic_error
      else Returned (ord\<lparr>m_remainingQuantity := m_remainingQuantity ord - quantity\<rparr>))"

text \<open>
  An \<open>OrderPointer\<close> is a \<open>std::shared_ptr<Order>\<close>. The price levels and the order
  index hold pointers to the same \<open>Order\<close> objects, and matching mutates an object
  through the pointer in the level, so the objects live in an explicit store, the
  \<open>heap\<close> of the state below, and a pointer is an address. Every address designates an
  object (no null pointer); objects are never destroyed (reference counts are not
  modelled).
\<close>

type_synonym OrderPointer = nat
type_synonym OrderPointers = "OrderPointer list"

record OrderModify =
  modify_orderId :: OrderId
  modify_price :: Price
  modify_side :: Side
  modify_quantity :: Quantity

record TradeInfo =
  trade_orderId :: OrderId
  trade_price :: Price
  trade_quantity :: Quantity

record Trade =
  m_bidTrade :: TradeInfo
  m_askTrade :: TradeInfo

type_synonym Trades = "Trade list"

section \<open>The containers\<close>

text \<open>
  A \<open>std::map\<close> or \<open>std::unordered_map\<close> is an association list with at most one
  entry for a key; a \<open>std::map\<close> keeps its entries in the order of its comparison
  \<open>cmp\<close> (\<open>std::greater\<close> for the bids, \<open>std::less\<close> for the asks), so that
  \<open>begin()\<close> is the head of the list.
\<close>

definition map_contains :: "('k \<times> 'v) list \<Rightarrow> 'k \<Rightarrow> bool" where
  "map_contains m k = (map_of m k \<noteq> None)"

text \<open>\<open>m.at(k)\<close>: \<open>None\<close> stands for the \<open>std::out_of_range\<close> that it throws.\<close>

definition map_at :: "('k \<times> 'v) list \<Rightarrow> 'k \<Rightarrow> 'v option" where
  "map_at m k = map_of m k"

definition map_erase :: "'k \<Rightarrow> ('k \<times> 'v) list \<Rightarrow> ('k \<times> 'v) list" where
  "map_erase k m = filter (\<lambda>kv. fst kv \<noteq> k) m"

text \<open>\<open>unordered_map::insert\<close>: no effect when the key is present.\<close>

definition map_insert :: "'k \<Rightarrow> 'v \<Rightarrow> ('k \<times> 'v) list \<Rightarrow> ('k \<times> 'v) list" where
  "map_insert k v m = (if map_contains m k then m else m @ [(k, v)])"

text \<open>
  \<open>m[k]\<close> of a \<open>std::map\<close> with comparison \<open>cmp\<close>: an absent key gets an empty
  level, placed where the order puts it.
\<close>

fun map_subscript :: "('k \<Rightarrow> 'k \<Rightarrow> bool) \<Rightarrow> 'k \<Rightarrow> ('k \<times> 'v list) list \<Rightarrow> ('k \<times> 'v list) list" where
  "map_subscript cmp k [] = [(k, [])]"
| "map_subscript cmp k ((k', v) # rest) =
     (if k = k' then (k', v) # rest
      else if cmp k k' then (k, []) # (k', v) # rest
      else (k', v) # map_subscript cmp k rest)"

text \<open>
  A write through a reference to the value stored under \<open>k\<close> (\<open>auto& orders = m[k]\<close>,
  then \<open>orders.push_back(...)\<close>).
\<close>

definition map_assign :: "'k \<Rightarrow> 'v \<Rightarrow> ('k \<times> 'v) list \<Rightarrow> ('k \<times> 'v) list" where
  "map_assign k v m = map (\<lambda>kv. if fst kv = k then (k, v) else kv) m"

section \<open>The order book (lines 165-352)\<close>

text \<open>
  \<open>location_\<close> is an iterator into the level's list: it designates the node that holds
  the order's pointer, and is modelled by that pointer. \<open>orders.erase(iterator)\<close>
  removes that node.
\<close>

record OrderEntry =
  m_order :: OrderPointer
  m_location :: OrderPointer

type_synonym Ladder = "(Price \<times> OrderPointers) list"

record Orderbook =
  m_bids :: Ladder
  m_asks :: Ladder
  m_orders :: "(OrderId \<times> OrderEntry) list"
  heap :: "OrderPointer \<Rightarrow> Order"
  next_ptr :: OrderPointer

text \<open>\<open>std::make_shared<Order>(...)\<close>: a new object at a new address.\<close>

definition make_shared :: "Order \<Rightarrow> Orderbook \<Rightarrow> OrderPointer \<times> Orderbook" where
  "make_shared ord s =
     (next_ptr s, s\<lparr>heap := (heap s)(next_ptr s := ord), next_ptr := Suc (next_ptr s)\<rparr>)"

text \<open>\<open>Orderbook::CanMatch\<close>, lines 179-196.\<close>

definition CanMatch :: "Orderbook \<Rightarrow> Side \<Rightarrow> Price \<Rightarrow> bool" where
  "CanMatch s side price =
     (if side = Buy then
        (case m_asks s of
           [] \<Rightarrow> False
         | (bestAsk, _) # _ \<Rightarrow> price \<ge> bestAsk)
      else
        (case m_bids s of
           [] \<Rightarrow> False
         | (bestBid, _) # _ \<Rightarrow> price \<le> bestBid))"

text \<open>
  \<open>Orderbook::CancelOrder\<close>, lines 301-325. The structured binding of line 306 binds
  references into the index entry that line 307 erases, and lines 309-321 read
  \<open>order\<close> and \<open>iterator\<close> after the erasure. The model reads the entry
  before the erasure: it gives these reads the two handles the entry held, whose order
  and list node are still in place at that point.
\<close>

definition CancelOrder :: "OrderId \<Rightarrow> Orderbook \<Rightarrow> unit outcome \<times> Orderbook" where
  "CancelOrder orderId s =
     (case map_at (m_orders s) orderId of
        None \<Rightarrow> (Returned (), s)
      | Some entry \<Rightarrow>
          (let order = m_order entry;
               iterator = m_location entry;
               s1 = s\<lparr>m_orders := map_erase orderId (m_orders s)\<rparr>
           in if GetSide (heap s1 order) = Sell then
                (let price = GetPrice (heap s1 order)
                 in case map_at (m_asks s1) price of
                      None \<Rightarrow> (Thrown out_of_range, s1)
                    | Some orders \<Rightarrow>
                        if iterator \<in> set orders then
                          (let orders1 = remove1 iterator orders;
                               s2 = s1\<lparr>m_asks := map_assign price orders1 (m_asks s1)\<rparr>
                           in if orders1 = []
                              then (Returned (), s2\<lparr>m_asks := map_erase price (m_asks s2)\<rparr>)
                              else (Returned (), s2))
                        else (Undefined, s1))
              else
                (let price = GetPrice (heap s1 order)
                 in case map_at (m_bids s1) price of
                      None \<Rightarrow> (Thrown out_of_range, s1)
                    | Some orders \<Rightarrow>
                        if iterator \<in> set orders then
                          (let orders1 = remove1 iterator orders;
                               s2 = s1\<lparr>m_bids := map_assign price orders1 (m_bids s1)\<rparr>
                           in if orders1 = []
                              then (Returned (), s2\<lparr>m_bids := map_erase price (m_bids s2)\<rparr>)
                              else (Returned (), s2))
                        else (Undefined, s1))))"

text \<open>
  \<open>Orderbook::CheckAndCancelFillAndKillOrders\<close>, lines 257-272: the lambda, applied to
  the bids and then to the asks.
\<close>

definition cancelFillAndKillOrder :: "(Orderbook \<Rightarrow> Ladder) \<Rightarrow> Orderbook \<Rightarrow> unit outcome \<times> Orderbook" where
  "cancelFillAndKillOrder orderContainer s =
     (case orderContainer s of
        [] \<Rightarrow> (Returned (), s)
      | (_, orders) # _ \<Rightarrow>
          (case orders of
             [] \<Rightarrow> (Undefined, s)
           | order # _ \<Rightarrow>
               if GetOrderType (heap s order) = FillAndKill
               then CancelOrder (GetOrderId (heap s order)) s
               else (Returned (), s)))"

definition CheckAndCancelFillAndKillOrders :: "Orderbook \<Rightarrow> unit outcome \<times> Orderbook" where
  "CheckAndCancelFillAndKillOrders s =
     (case cancelFillAndKillOrder m_bids s of
        (Returned _, s1) \<Rightarrow> cancelFillAndKillOrder m_asks s1
      | (Thrown e, s1) \<Rightarrow> (Thrown e, s1)
      | (Undefined, s1) \<Rightarrow> (Undefined, s1))"

text \<open>
  \<open>Orderbook::MatchOrders\<close>, lines 199-254.

  The body of the inner loop, lines 217-246. \<open>bids\<close> and \<open>asks\<close> are the references
  of lines 209-210 to the two levels, stored in the ladders under \<open>bidPrice\<close> and
  \<open>askPrice\<close>: a \<open>pop_front\<close> writes through to the ladder. \<open>bid\<close> and \<open>ask\<close>
  (lines 217-218) are references to the elements of the two front nodes.

  Lines 220-223: the matched quantity and the two fills.
\<close>

definition fill_fronts :: "OrderPointer \<Rightarrow> OrderPointer \<Rightarrow> Orderbook \<Rightarrow> Quantity outcome \<times> Orderbook" where
  "fill_fronts bid ask s =
     (let quantity = min (GetRemainingQuantity (heap s bid)) (GetRemainingQuantity (heap s ask))
      in case Fill quantity (heap s bid) of
           Thrown e \<Rightarrow> (Thrown e, s)
         | Undefined \<Rightarrow> (Undefined, s)
         | Returned bid_filled \<Rightarrow>
             (let s1 = s\<lparr>heap := (heap s)(bid := bid_filled)\<rparr>
              in case Fill quantity (heap s1 ask) of
                   Thrown e \<Rightarrow> (Thrown e, s1)
                 | Undefined \<Rightarrow> (Undefined, s1)
                 | Returned ask_filled \<Rightarrow>
                     (Returned quantity, s1\<lparr>heap := (heap s1)(ask := ask_filled)\<rparr>)))"

text \<open>Lines 243-246: the trade, read through \<open>bid\<close> and \<open>ask\<close>.\<close>

definition make_trade :: "OrderPointer \<Rightarrow> OrderPointer \<Rightarrow> Quantity \<Rightarrow> Orderbook \<Rightarrow> Trade" where
  "make_trade bid ask quantity s =
     \<lparr>m_bidTrade =
        \<lparr>trade_orderId = GetOrderId (heap s bid), trade_price = GetPrice (heap s bid),
         trade_quantity = quantity\<rparr>,
      m_askTrade =
        \<lparr>trade_orderId = GetOrderId (heap s ask), trade_price = GetPrice (heap s ask),
         trade_quantity = quantity\<rparr>\<rparr>"

text \<open>
  One pass of the body. When the bid is filled, \<open>bids.pop_front()\<close> (line 227) destroys
  the node that \<open>bid\<close> refers to, and line 228 reads \<open>bid->GetOrderId()\<close> through
  that reference: the pass has no defined behaviour from there on. Likewise for the ask
  on lines 233-234. Only a pass that fills neither order goes on to lines 237-246 with
  both references intact; it leaves the two levels as they were and appends a trade.
\<close>

definition match_pass ::
  "Price \<Rightarrow> Price \<Rightarrow> OrderPointers \<Rightarrow> OrderPointers \<Rightarrow> Orderbook \<Rightarrow>
   Trade outcome \<times> Orderbook" where
  "match_pass bidPrice askPrice bids asks s =
     (case fill_fronts (hd bids) (hd asks) s of
        (Returned quantity, s1) \<Rightarrow>
          if IsFilled (heap s1 (hd bids)) then
            (Undefined, s1\<lparr>m_bids := map_assign bidPrice (tl bids) (m_bids s1)\<rparr>)
          else if IsFilled (heap s1 (hd asks)) then
            (Undefined, s1\<lparr>m_asks := map_assign askPrice (tl asks) (m_asks s1)\<rparr>)
          else
            (let s2 = (if bids = [] then s1\<lparr>m_bids := map_erase bidPrice (m_bids s1)\<rparr> else s1);
                 s3 = (if asks = [] then s2\<lparr>m_asks := map_erase askPrice (m_asks s2)\<rparr> else s2)
             in (Returned (make_trade (hd bids) (hd asks) quantity s3), s3))
      | (Thrown e, s1) \<Rightarrow> (Thrown e, s1)
      | (Undefined, s1) \<Rightarrow> (Undefined, s1))"

text \<open>
  The inner loop, lines 215-247. It goes round only after a pass that fills neither
  front order; the matched quantity is the minimum of the two remaining quantities, so
  there is no such pass, which is the termination proof.
\<close>

function match_level ::
  "Price \<Rightarrow> Price \<Rightarrow> OrderPointers \<Rightarrow> OrderPointers \<Rightarrow> Trades \<Rightarrow> Orderbook \<Rightarrow>
   Trades outcome \<times> Orderbook" where
  "match_level bidPrice askPrice bids asks trades s =
     (if bids \<noteq> [] \<and> asks \<noteq> [] then
        (case match_pass bidPrice askPrice bids asks s of
           (Returned trade, s1) \<Rightarrow>
             match_level bidPrice askPrice bids asks (trades @ [trade]) s1
         | (Thrown e, s1) \<Rightarrow> (Thrown e, s1)
         | (Undefined, s1) \<Rightarrow> (Undefined, s1))
      else (Returned trades, s))"
  by pat_completeness auto
termination
proof (relation "{}")
  show "wf {}"
    by simp
next
  fix bidPrice askPrice :: Price and bids asks :: OrderPointers and trades :: Trades
    and s s1 :: Orderbook and r :: "Trade outcome" and trade :: Trade
  assume pass: "(r, s1) = match_pass bidPrice askPrice bids asks s"
    and r: "r = Returned trade"
  from pass r
  have eq: "match_pass bidPrice askPrice bids asks s = (Returned trade, s1)"
    by simp
  obtain quantity s2 where fill: "fill_fronts (hd bids) (hd asks) s = (Returned quantity, s2)"
    and bid_left: "\<not> IsFilled (heap s2 (hd bids))"
    and ask_left: "\<not> IsFilled (heap s2 (hd asks))"
    using eq by (auto simp: match_pass_def Let_def split: prod.splits outcome.splits if_splits)
  have filled: "IsFilled (heap s2 (hd bids)) \<or> IsFilled (heap s2 (hd asks))"
  proof (cases "hd bids = hd asks")
    case True
    with fill show ?thesis
      by (auto simp: fill_fronts_def Let_def Fill_def IsFilled_def word_gt_0 split: if_splits)
  next
    case False
    have "min (GetRemainingQuantity (heap s (hd bids))) (GetRemainingQuantity (heap s (hd asks)))
            = GetRemainingQuantity (heap s (hd bids))
          \<or> min (GetRemainingQuantity (heap s (hd bids))) (GetRemainingQuantity (heap s (hd asks)))
            = GetRemainingQuantity (heap s (hd asks))"
      by (simp add: min_def)
    with fill False show ?thesis
      by (auto simp: fill_fronts_def Let_def Fill_def IsFilled_def split: if_splits)
  qed
  with bid_left ask_left
  show "((bidPrice, askPrice, bids, asks, trades @ [trade], s1),
         (bidPrice, askPrice, bids, asks, trades, s)) \<in> {}"
    by simp
qed

text \<open>
  The outer loop \<open>while (true)\<close>, lines 204-253. Every path through its body ends in
  \<open>break\<close> (lines 207 and 213) or in \<open>return trades\<close> (line 252), so the body runs
  once. After a \<open>break\<close> control reaches the end of the function, line 254, with no
  \<open>return\<close> statement: the call has no defined result.
\<close>

definition MatchOrders :: "Orderbook \<Rightarrow> Trades outcome \<times> Orderbook" where
  "MatchOrders s =
     (case (m_bids s, m_asks s) of
        ([], _) \<Rightarrow> (Undefined, s)
      | (_ # _, []) \<Rightarrow> (Undefined, s)
      | ((bidPrice, bids) # _, (askPrice, asks) # _) \<Rightarrow>
          if bidPrice < askPrice then (Undefined, s)
          else
            (case match_level bidPrice askPrice bids asks [] s of
               (Returned trades, s1) \<Rightarrow>
                 (case CheckAndCancelFillAndKillOrders s1 of
                    (Returned _, s2) \<Rightarrow> (Returned trades, s2)
                  | (Thrown e, s2) \<Rightarrow> (Thrown e, s2)
                  | (Undefined, s2) \<Rightarrow> (Undefined, s2))
             | (Thrown e, s1) \<Rightarrow> (Thrown e, s1)
             | (Undefined, s1) \<Rightarrow> (Undefined, s1)))"

text \<open>
  \<open>Orderbook::AddOrder\<close>, lines 275-299. Line 278 reads \<open>return ( );\<close>, which is no
  statement of C++: the source computes nothing there. The model takes the line as the
  \<open>return { };\<close> of line 281, its sibling, and this reading is all that stands behind
  the value it gives for a duplicate id. Line 288 reads \<open>order.push_back(order)\<close> and
  is taken as the \<open>orders.push_back(order)\<close> of line 294. Both branches of line 285
  take the level from \<open>bids_\<close> (lines 287 and 293).

  Lines 283-297, the insertion: the level, the \<open>push_back\<close>, the iterator to the last
  node, the index entry.
\<close>

definition AddOrder_insert :: "OrderPointer \<Rightarrow> Orderbook \<Rightarrow> Orderbook" where
  "AddOrder_insert order s =
     (let s2 =
        (if GetSide (heap s order) = Buy then
           (let s1 = s\<lparr>m_bids := map_subscript (>) (GetPrice (heap s order)) (m_bids s)\<rparr>;
                orders = (case map_at (m_bids s1) (GetPrice (heap s order)) of
                            None \<Rightarrow> [] | Some l \<Rightarrow> l)
            in s1\<lparr>m_bids := map_assign (GetPrice (heap s order)) (orders @ [order]) (m_bids s1)\<rparr>)
         else
           (let s1 = s\<lparr>m_bids := map_subscript (>) (GetPrice (heap s order)) (m_bids s)\<rparr>;
                orders = (case map_at (m_bids s1) (GetPrice (heap s order)) of
                            None \<Rightarrow> [] | Some l \<Rightarrow> l)
            in s1\<lparr>m_bids := map_assign (GetPrice (heap s order)) (orders @ [order]) (m_bids s1)\<rparr>))
      in s2\<lparr>m_orders :=
              map_insert (GetOrderId (heap s order)) \<lparr>m_order = order, m_location = order\<rparr>
                (m_orders s2)\<rparr>)"

definition AddOrder :: "OrderPointer \<Rightarrow> Orderbook \<Rightarrow> Trades outcome \<times> Orderbook" where
  "AddOrder order s =
     (if map_contains (m_orders s) (GetOrderId (heap s order)) then (Returned [], s)
      else if GetOrderType (heap s order) = FillAndKill
              \<and> \<not> CanMatch s (GetSide (heap s order)) (GetPrice (heap s order))
           then (Returned [], s)
      else MatchOrders (AddOrder_insert order s))"

text \<open>\<open>OrderModify::ToOrderPointer\<close>, lines 126-129.\<close>

definition ToOrderPointer :: "OrderModify \<Rightarrow> OrderType \<Rightarrow> Orderbook \<Rightarrow> OrderPointer \<times> Orderbook" where
  "ToOrderPointer m type s =
     make_shared (new_Order type (modify_orderId m) (modify_side m) (modify_price m)
                    (modify_quantity m)) s"

text \<open>
  \<open>Orderbook::MatchOrder\<close>, lines 327-335, the book's modify. Line 332 binds
  \<open>existingOrder\<close> as a reference into the index entry of the order, and line 334
  reads \<open>existingOrder->GetOrderType()\<close> after the \<open>CancelOrder\<close> of line 333. The
  reference is good as long as its entry is in the index; once the entry is erased
  (line 307) the read has no defined behaviour.
\<close>

definition MatchOrder :: "OrderModify \<Rightarrow> Orderbook \<Rightarrow> Trades outcome \<times> Orderbook" where
  "MatchOrder order s =
     (case map_at (m_orders s) (modify_orderId order) of
        None \<Rightarrow> (Returned [], s)
      | Some entry \<Rightarrow>
          (case CancelOrder (modify_orderId order) s of
             (Returned _, s1) \<Rightarrow>
               if map_at (m_orders s1) (modify_orderId order) = Some entry then
                 (let existingOrder = m_order entry
                  in case ToOrderPointer order (GetOrderType (heap s1 existingOrder)) s1 of
                       (p, s2) \<Rightarrow> AddOrder p s2)
               else (Undefined, s1)
           | (Thrown e, s1) \<Rightarrow> (Thrown e, s1)
           | (Undefined, s1) \<Rightarrow> (Undefined, s1)))"


text \<open>
  \<open>Orderbook::GetOrderInfos\<close>, lines 339-351. The source declares the two result
  vectors and the helper \<open>CreateLevelInfos\<close>, and stops there: the \<open>for\<close> of line 350
  has neither a range nor a body, nothing is appended to the vectors, and no
  \<open>return\<close> statement follows. Control reaches the end of the function with no
  \<open>OrderbookLevelInfos\<close> built.

  \<open>CreateLevelInfos\<close> sums with \<open>std::accumulate\<close> from \<open>(Quantity) 0\<close>, so the running
  sum is a \<open>Quantity\<close> and wraps at \<open>2 ^ 32\<close>.
\<close>

definition CreateLevelInfos :: "(OrderPointer \<Rightarrow> Order) \<Rightarrow> Price \<Rightarrow> OrderPointers \<Rightarrow> LevelInfo" where
  "CreateLevelInfos h price orders =
     \<lparr>level_price = price,
      level_quantity =
        foldl (\<lambda>runningSum order. runningSum + GetRemainingQuantity (h order)) 0 orders\<rparr>"

definition GetOrderInfos :: "Orderbook \<Rightarrow> OrderbookLevelInfos outcome" where
  "GetOrderInfos s = Undefined"

section \<open>The states of the book\<close>

text \<open>
  The states the book can be in: it starts empty, and its public operations are
  \<open>AddOrder\<close>, \<open>CancelOrder\<close> and \<open>MatchOrder\<close>; callers create \<open>Order\<close> objects
  with \<open>std::make_shared\<close>. A call that throws or has no defined result leaves the
  state the model computes for it.
\<close>

inductive reachable :: "Orderbook \<Rightarrow> bool" where
  initial: "m_bids s = [] \<Longrightarrow> m_asks s = [] \<Longrightarrow> m_orders s = [] \<Longrightarrow> reachable s"
| submit: "reachable s \<Longrightarrow> reachable (snd (AddOrder order s))"
| cancel: "reachable s \<Longrightarrow> reachable (snd (CancelOrder orderId s))"
| modify: "reachable s \<Longrightarrow> reachable (snd (MatchOrder m s))"
| create: "reachable s \<Longrightarrow> reachable (snd (make_shared ord s))"

section \<open>Example books\<close>

definition default_Order :: Order where
  "default_Order = new_Order GoodTillCancel 0 Buy 0 0"

text \<open>
  An empty book, and three orders a caller has created: at address 0 a GoodTillCancel
  Sell of 10 at 100 with id 1, at address 1 a GoodTillCancel Buy of 10 at 100 with id 2,
  at address 2 a FillAndKill Buy of 5 at 101 with id 3.
\<close>

definition example_heap :: "OrderPointer \<Rightarrow> Order" where
  "example_heap = (\<lambda>_. default_Order)
     (0 := new_Order GoodTillCancel 1 Sell 100 10,
      1 := new_Order GoodTillCancel 2 Buy 100 10,
      2 := new_Order FillAndKill 3 Buy 101 5)"

definition empty_book :: Orderbook where
  "empty_book = \<lparr>m_bids = [], m_asks = [], m_orders = [], heap = example_heap, next_ptr = 3\<rparr>"

text \<open>
  A book with every order on the ladder of its own side: a Buy of 10 at 101 (id 1)
  against a Sell of 5 at 100 (id 2) and a Sell of 5 at 101 (id 3). The Buy crosses both
  ask levels. At address 3, not submitted, a FillAndKill Buy of 5 at 99 with id 4.
\<close>

definition crossed_heap :: "OrderPointer \<Rightarrow> Order" where
  "crossed_heap = (\<lambda>_. default_Order)
     (0 := new_Order GoodTillCancel 1 Buy 101 10,
      1 := new_Order GoodTillCancel 2 Sell 100 5,
      2 := new_Order GoodTillCancel 3 Sell 101 5,
      3 := new_Order FillAndKill 4 Buy 99 5)"

definition crossed_book :: Orderbook where
  "crossed_book =
     \<lparr>m_bids = [(101, [0])], m_asks = [(100, [1]), (101, [2])],
      m_orders = [(1, \<lparr>m_order = 0, m_location = 0\<rparr>), (2, \<lparr>m_order = 1, m_location = 1\<rparr>),
                  (3, \<lparr>m_order = 2, m_location = 2\<rparr>)],
      heap = crossed_heap, next_ptr = 4\<rparr>"



text \<open>The book after the submit of the Buy of 10 at 100 with id 2 to the empty book.\<close>

definition one_buy_book :: Orderbook where
  "one_buy_book = snd (AddOrder 1 empty_book)"

section \<open>Facts about the containers\<close>

lemma map_at_assign: "map_contains m k \<Longrightarrow> map_at (map_assign k v m) k = Some v"
  by (induction m) (auto simp: map_contains_def map_at_def map_assign_def)

lemma map_contains_erase: "\<not> map_contains (map_erase k m) k"
  by (induction m) (auto simp: map_contains_def map_erase_def)

lemma map_at_erase: "map_at (map_erase k m) k = None"
  by (induction m) (auto simp: map_at_def map_erase_def)

lemma map_contains_erase_other: "\<not> map_contains m k \<Longrightarrow> \<not> map_contains (map_erase k' m) k"
  by (induction m) (auto simp: map_contains_def map_erase_def)

lemma map_contains_at: "map_contains m k = (map_at m k \<noteq> None)"
  by (simp add: map_contains_def map_at_def)

lemma map_at_subscript:
  "sorted_wrt (>) (map fst m) \<Longrightarrow>
   map_at (map_subscript (>) (k :: Price) m) k = Some (case map_at m k of None \<Rightarrow> [] | Some l \<Rightarrow> l)"
proof (induction m)
  case Nil
  then show ?case by (simp add: map_at_def)
next
  case (Cons a m)
  obtain k' v where a: "a = (k', v)" by (cases a)
  show ?case
  proof (cases "k = k'")
    case True
    with a show ?thesis by (simp add: map_at_def)
  next
    case False
    show ?thesis
    proof (cases "k > k'")
      case True
      with Cons.prems a have "k \<notin> fst ` set m"
        by auto
      then have "map_of m k = None"
        by (simp add: map_of_eq_None_iff)
      with a True False show ?thesis by (simp add: map_at_def)
    next
      case notgt: False
      with Cons a False show ?thesis by (simp add: map_at_def)
    qed
  qed
qed

lemma map_contains_subscript: "map_contains (map_subscript cmp k m) k"
  by (induction m) (auto simp: map_contains_def)

section \<open>Cancel\<close>

lemma CancelOrder_heap: "heap (snd (CancelOrder orderId s)) = heap s"
  by (simp add: CancelOrder_def Let_def split: option.splits)

lemma CancelOrder_asks_empty: "m_asks s = [] \<Longrightarrow> m_asks (snd (CancelOrder orderId s)) = []"
  by (simp add: CancelOrder_def Let_def map_at_def split: option.splits)

lemma CancelOrder_not_resting:
  "\<not> map_contains (m_orders s) orderId \<Longrightarrow> CancelOrder orderId s = (Returned (), s)"
  by (simp add: CancelOrder_def map_contains_at)

lemma CancelOrder_index:
  "m_orders (snd (CancelOrder orderId s)) = map_erase orderId (m_orders s)"
proof (cases "map_at (m_orders s) orderId")
  case None
  then have "orderId \<notin> fst ` set (m_orders s)"
    by (simp add: map_at_def map_of_eq_None_iff)
  then have "map_erase orderId (m_orders s) = m_orders s"
    by (auto simp: map_erase_def filter_id_conv)
  with None show ?thesis by (simp add: CancelOrder_def)
next
  case (Some entry)
  then show ?thesis
    by (simp add: CancelOrder_def Let_def split: option.splits)
qed

lemma CancelOrder_erases_index: "\<not> map_contains (m_orders (snd (CancelOrder orderId s))) orderId"
  by (simp add: CancelOrder_index map_contains_erase)

lemma CancelOrder_twice:
  "CancelOrder orderId (snd (CancelOrder orderId s)) = (Returned (), snd (CancelOrder orderId s))"
  by (rule CancelOrder_not_resting) (rule CancelOrder_erases_index)

lemma CancelOrder_on_own_ladder:
  assumes "map_at (m_orders s) orderId = Some entry"
    and "map_at (if GetSide (heap s (m_order entry)) = Sell then m_asks s else m_bids s)
           (GetPrice (heap s (m_order entry))) = Some orders"
    and "m_location entry \<in> set orders"
  shows "fst (CancelOrder orderId s) = Returned ()
    \<and> map_at (if GetSide (heap s (m_order entry)) = Sell
                 then m_asks (snd (CancelOrder orderId s)) else m_bids (snd (CancelOrder orderId s)))
           (GetPrice (heap s (m_order entry)))
         = (if remove1 (m_location entry) orders = [] then None
            else Some (remove1 (m_location entry) orders))"
proof -
  have c: "\<And>m. map_at m (GetPrice (heap s (m_order entry))) = Some orders \<Longrightarrow>
        map_contains m (GetPrice (heap s (m_order entry)))"
    by (simp add: map_contains_at)
  show ?thesis
    using assms
    by (cases "GetSide (heap s (m_order entry)) = Sell")
       (simp_all add: CancelOrder_def Let_def map_at_erase map_at_assign c)
qed

text \<open>
  C5. Cancel of an id that is not resting changes nothing (\<open>CancelOrder_not_resting\<close>),
  cancel always removes the index entry (\<open>CancelOrder_index\<close>), a second cancel of the
  same id is a no-op (\<open>CancelOrder_twice\<close>), and an order resting on the ladder of its
  own side leaves its level (\<open>CancelOrder_on_own_ladder\<close>). But a Sell order that
  \<open>AddOrder\<close> has accepted rests on the bid ladder: submitted to the empty book and then
  cancelled, it loses its index entry, \<open>asks_.at(price)\<close> throws
  \<open>std::out_of_range\<close>, and the order stays in its level.
\<close>

theorem CancelOrder_of_resting_Sell_throws:
  "fst (CancelOrder 1 (snd (AddOrder 0 empty_book))) = Thrown out_of_range
   \<and> m_bids (snd (CancelOrder 1 (snd (AddOrder 0 empty_book)))) = [(100, [0])]
   \<and> m_orders (snd (CancelOrder 1 (snd (AddOrder 0 empty_book)))) = []"
  by (intro conjI; code_simp)

section \<open>Submit\<close>

lemma MatchOrders_break:
  "m_bids s = [] \<or> m_asks s = [] \<or> fst (hd (m_bids s)) < fst (hd (m_asks s)) \<Longrightarrow>
   MatchOrders s = (Undefined, s)"
  by (auto simp: MatchOrders_def split: list.splits)

lemma AddOrder_insert_asks: "m_asks (AddOrder_insert order s) = m_asks s"
  by (simp add: AddOrder_insert_def Let_def)

lemma AddOrder_asks_empty: "m_asks s = [] \<Longrightarrow> m_asks (snd (AddOrder order s)) = []"
  by (simp add: AddOrder_def MatchOrders_break AddOrder_insert_asks)

lemma make_shared_asks: "m_asks (snd (make_shared ord s)) = m_asks s"
  by (simp add: make_shared_def)

lemma MatchOrder_asks_empty:
  assumes "m_asks s = []"
  shows "m_asks (snd (MatchOrder m s)) = []"
proof (cases "map_at (m_orders s) (modify_orderId m)")
  case None
  with assms show ?thesis by (simp add: MatchOrder_def)
next
  case (Some entry)
  obtain r s1 where c: "CancelOrder (modify_orderId m) s = (r, s1)"
    by (cases "CancelOrder (modify_orderId m) s")
  with CancelOrder_asks_empty [OF assms, of "modify_orderId m"] have s1: "m_asks s1 = []"
    by simp
  show ?thesis
  proof (cases r)
    case (Returned u)
    obtain p s2 where t: "ToOrderPointer m (GetOrderType (heap s1 (m_order entry))) s1 = (p, s2)"
      by (cases "ToOrderPointer m (GetOrderType (heap s1 (m_order entry))) s1")
    then have "m_asks s2 = []"
      using s1 by (auto simp: ToOrderPointer_def make_shared_def)
    then have "m_asks (snd (AddOrder p s2)) = []"
      by (rule AddOrder_asks_empty)
    with Some c Returned t s1 show ?thesis
      by (simp add: MatchOrder_def)
  next
    case (Thrown e)
    with Some c s1 show ?thesis by (simp add: MatchOrder_def)
  next
    case Undefined
    with Some c s1 show ?thesis by (simp add: MatchOrder_def)
  qed
qed

lemma AddOrder_insert_level:
  assumes "sorted_wrt (>) (map fst (m_bids s))"
  shows "map_at (m_bids (AddOrder_insert order s)) (GetPrice (heap s order))
     = Some ((case map_at (m_bids s) (GetPrice (heap s order)) of None \<Rightarrow> [] | Some l \<Rightarrow> l) @ [order])
   \<and> m_asks (AddOrder_insert order s) = m_asks s"
  by (simp add: AddOrder_insert_def Let_def map_at_assign map_contains_subscript
        map_at_subscript [OF assms])

lemma AddOrder_insert_index:
  "\<not> map_contains (m_orders s) (GetOrderId (heap s order)) \<Longrightarrow>
   m_orders (AddOrder_insert order s)
     = m_orders s @ [(GetOrderId (heap s order), \<lparr>m_order = order, m_location = order\<rparr>)]"
  by (simp add: AddOrder_insert_def Let_def map_insert_def)

text \<open>
  C2. The insertion appends the order at the back of the level at its price on the bid
  ladder, creating the level if absent, and records it in the index
  (\<open>AddOrder_insert_level\<close>, \<open>AddOrder_insert_index\<close>), whatever its side. A Sell
  order submitted to the empty book is put on the bid ladder, and the ask ladder stays
  empty.
\<close>

theorem AddOrder_puts_Sell_into_bids:
  "GetSide (heap empty_book 0) = Sell
   \<and> m_bids (snd (AddOrder 0 empty_book)) = [(100, [0])]
   \<and> m_asks (snd (AddOrder 0 empty_book)) = []
   \<and> m_orders (snd (AddOrder 0 empty_book)) = [(1, \<lparr>m_order = 0, m_location = 0\<rparr>)]"
  by (intro conjI; code_simp)

text \<open>
  C4. A FillAndKill order that cannot match on arrival (a Buy when the ask ladder is
  empty or its price is strictly below the best ask price, a Sell when the bid ladder is
  empty or its price is strictly above the best bid price) makes submit return the empty
  trade list and leave the state as it was: the order is not inserted.
\<close>

theorem FillAndKill_rejected:
  assumes "GetOrderType (heap s order) = FillAndKill"
    and "(GetSide (heap s order) = Buy
            \<and> (m_asks s = [] \<or> GetPrice (heap s order) < fst (hd (m_asks s))))
         \<or> (GetSide (heap s order) = Sell
            \<and> (m_bids s = [] \<or> fst (hd (m_bids s)) < GetPrice (heap s order)))"
  shows "AddOrder order s = (Returned [], s)"
proof -
  from assms(2) have "\<not> CanMatch s (GetSide (heap s order)) (GetPrice (heap s order))"
    by (auto simp: CanMatch_def split: list.splits)
  with assms(1) show ?thesis
    by (simp add: AddOrder_def)
qed

theorem FillAndKill_rejected_witness:
  "GetOrderType (heap crossed_book 3) = FillAndKill
   \<and> GetSide (heap crossed_book 3) = Buy
   \<and> GetPrice (heap crossed_book 3) < fst (hd (m_asks crossed_book))
   \<and> AddOrder 3 crossed_book = (Returned [], crossed_book)"
  using FillAndKill_rejected [of crossed_book 3]
  by (simp add: crossed_book_def crossed_heap_def new_Order_def)

section \<open>The reachable books\<close>

text \<open>
  Nothing ever enters the ask ladder: \<open>AddOrder\<close> inserts on the bid ladder only, and
  the other operations insert nothing.
\<close>

lemma reachable_asks_empty: "reachable s \<Longrightarrow> m_asks s = []"
proof (induction rule: reachable.induct)
  case (initial s)
  then show ?case by simp
next
  case (submit s order)
  then show ?case by (simp add: AddOrder_asks_empty)
next
  case (cancel s orderId)
  then show ?case by (simp add: CancelOrder_asks_empty)
next
  case (modify s m)
  then show ?case by (simp add: MatchOrder_asks_empty)
next
  case (create s ord)
  then show ?case by (simp add: make_shared_asks)
qed

lemma submit_never_trades:
  assumes "reachable s"
  shows "fst (AddOrder order s) = Returned [] \<or> fst (AddOrder order s) = Undefined"
  using reachable_asks_empty [OF assms]
  by (simp add: AddOrder_def MatchOrders_break AddOrder_insert_asks)


section \<open>Modify\<close>

lemma MatchOrder_not_resting:
  "map_at (m_orders s) (modify_orderId m) = None \<Longrightarrow> MatchOrder m s = (Returned [], s)"
  by (simp add: MatchOrder_def)

text \<open>
  The cancel always erases the index entry, so the read of line 334 never finds the
  entry that \<open>existingOrder\<close> refers to: a modify of a resting order returns nothing.
\<close>

lemma MatchOrder_resting_never_returns:
  assumes "map_at (m_orders s) (modify_orderId m) = Some entry"
  shows "fst (MatchOrder m s) \<noteq> Returned trades"
proof -
  obtain r s1 where c: "CancelOrder (modify_orderId m) s = (r, s1)"
    by (cases "CancelOrder (modify_orderId m) s")
  with CancelOrder_index [of "modify_orderId m" s]
  have "m_orders s1 = map_erase (modify_orderId m) (m_orders s)"
    by simp
  then have gone: "map_at (m_orders s1) (modify_orderId m) = None"
    by (simp add: map_at_erase)
  show ?thesis
    using assms c gone by (cases r) (simp_all add: MatchOrder_def)
qed

text \<open>
  C7. Modify of a resting order is not the cancel followed by the submit of a new
  order of the original kind. For the book that holds one resting Buy order with id 2,
  the modify of id 2 cancels the order (its index entry is erased) and then reads the
  kind through the reference into that erased entry: the call has no defined result,
  no new order is constructed and the index stays empty. (A modify of an id that is not
  resting returns no trades and changes nothing: \<open>MatchOrder_not_resting\<close>.)
\<close>

theorem modify_of_resting_order_is_undefined:
  "map_contains (m_orders one_buy_book) 2
   \<and> fst (MatchOrder \<lparr>modify_orderId = 2, modify_price = 99, modify_side = Buy,
                        modify_quantity = 4\<rparr> one_buy_book) = Undefined
   \<and> m_orders (snd (MatchOrder \<lparr>modify_orderId = 2, modify_price = 99, modify_side = Buy,
                                  modify_quantity = 4\<rparr> one_buy_book)) = []
   \<and> next_ptr (snd (MatchOrder \<lparr>modify_orderId = 2, modify_price = 99, modify_side = Buy,
                                  modify_quantity = 4\<rparr> one_buy_book)) = next_ptr one_buy_book"
  by (intro conjI; code_simp)

section \<open>Matching\<close>

text \<open>
  No pass of the inner loop completes: the matched quantity fills the bid or the ask,
  whose reference is then read after its node is popped (or the second fill throws,
  when one object is at the front of both levels).
\<close>

lemma match_pass_never_returns: "fst (match_pass bidPrice askPrice bids asks s) \<noteq> Returned trade"
proof
  assume r: "fst (match_pass bidPrice askPrice bids asks s) = Returned trade"
  then obtain quantity s2 where fill: "fill_fronts (hd bids) (hd asks) s = (Returned quantity, s2)"
    and bid_left: "\<not> IsFilled (heap s2 (hd bids))"
    and ask_left: "\<not> IsFilled (heap s2 (hd asks))"
    by (auto simp: match_pass_def Let_def split: prod.splits outcome.splits if_splits)
  have "IsFilled (heap s2 (hd bids)) \<or> IsFilled (heap s2 (hd asks))"
  proof (cases "hd bids = hd asks")
    case True
    with fill show ?thesis
      by (auto simp: fill_fronts_def Let_def Fill_def IsFilled_def word_gt_0 split: if_splits)
  next
    case False
    have "min (GetRemainingQuantity (heap s (hd bids))) (GetRemainingQuantity (heap s (hd asks)))
            = GetRemainingQuantity (heap s (hd bids))
          \<or> min (GetRemainingQuantity (heap s (hd bids))) (GetRemainingQuantity (heap s (hd asks)))
            = GetRemainingQuantity (heap s (hd asks))"
      by (simp add: min_def)
    with fill False show ?thesis
      by (auto simp: fill_fronts_def Let_def Fill_def IsFilled_def split: if_splits)
  qed
  with bid_left ask_left show False
    by simp
qed

text \<open>
  C10. On the \<open>break\<close> paths \<open>MatchOrders\<close> has no result: with an empty ladder, or
  with the best bid price below the best ask price, control reaches the end of the
  function (\<open>MatchOrders_break\<close>). So it is for the empty book, and for the submit of
  a Buy order to the empty book, which inserts the order and then matches.
\<close>

theorem MatchOrders_break_has_no_result:
  "fst (MatchOrders empty_book) = Undefined
   \<and> fst (AddOrder 1 empty_book) = Undefined
   \<and> m_orders (snd (AddOrder 1 empty_book)) = [(2, \<lparr>m_order = 1, m_location = 1\<rparr>)]"
  by (intro conjI; code_simp)

section \<open>Snapshot\<close>

text \<open>
  C8. \<open>GetOrderInfos\<close> builds no snapshot: for the book that holds one resting Buy
  order it has no result.
\<close>

theorem GetOrderInfos_gives_no_snapshot:
  "m_bids (snd (AddOrder 1 empty_book)) = [(100, [1])]
   \<and> GetOrderInfos (snd (AddOrder 1 empty_book)) = Undefined"
  by (intro conjI; code_simp)

end
